theory Spec2Isabelle
  imports Complex_Main "HOL-Library.Multiset"
begin

section \<open>JavaScript numbers\<close>

text \<open>
  The program computes with JavaScript numbers. A finite number is modelled by a real
  (overflow of doubles is not modelled, neither is the sign of zero); the three special
  values that a division by zero produces are kept, because the scoring code divides
  without a guard and relies on how \<open>Math.min\<close>, \<open>Math.max\<close> and the comparison
  \<open>a > b\<close> treat them.

  The operations below are exact. Where the result of a claim depends on the rounding
  of doubles, the rounding is made explicit: the Task Synthesizer takes it as a
  parameter \<open>fl\<close> (\<open>fl x\<close> is the double nearest to \<open>x\<close>) and rounds after every
  operation; the Pattern Extractor is kept exact, which is what doubles compute when the
  timestamps are whole milliseconds, and the statement about its threshold is made for
  such timestamps.
\<close>

datatype jsnum = Fin real | PInf | NInf | NaN

fun js_neg :: "jsnum \<Rightarrow> jsnum" where
  "js_neg (Fin a) = Fin (- a)"
| "js_neg PInf = NInf"
| "js_neg NInf = PInf"
| "js_neg NaN = NaN"

fun js_add :: "jsnum \<Rightarrow> jsnum \<Rightarrow> jsnum" where
  "js_add NaN b = NaN"
| "js_add a NaN = NaN"
| "js_add (Fin a) (Fin b) = Fin (a + b)"
| "js_add PInf NInf = NaN"
| "js_add NInf PInf = NaN"
| "js_add PInf b = PInf"
| "js_add NInf b = NInf"
| "js_add a PInf = PInf"
| "js_add a NInf = NInf"

definition js_sub :: "jsnum \<Rightarrow> jsnum \<Rightarrow> jsnum" where
  "js_sub a b = js_add a (js_neg b)"

text \<open>The sign of a number that is not NaN: \<open>-1\<close>, \<open>0\<close> or \<open>1\<close>.\<close>

fun js_sign :: "jsnum \<Rightarrow> int" where
  "js_sign (Fin a) = (if a < 0 then - 1 else if a = 0 then 0 else 1)"
| "js_sign PInf = 1"
| "js_sign NInf = - 1"
| "js_sign NaN = 0"

definition signed_inf :: "int \<Rightarrow> jsnum" where
  "signed_inf s = (if s < 0 then NInf else if s = 0 then NaN else PInf)"

fun js_mul :: "jsnum \<Rightarrow> jsnum \<Rightarrow> jsnum" where
  "js_mul NaN b = NaN"
| "js_mul a NaN = NaN"
| "js_mul (Fin a) (Fin b) = Fin (a * b)"
| "js_mul a b = signed_inf (js_sign a * js_sign b)"

fun js_div :: "jsnum \<Rightarrow> jsnum \<Rightarrow> jsnum" where
  "js_div NaN b = NaN"
| "js_div a NaN = NaN"
| "js_div (Fin a) (Fin b) =
     (if b = 0 then signed_inf (js_sign (Fin a)) else Fin (a / b))"
| "js_div (Fin a) b = Fin 0"
| "js_div a (Fin b) = (if b < 0 then js_neg a else a)"
| "js_div a b = NaN"

text \<open>\<open>a > b\<close>: false as soon as one side is NaN.\<close>

fun js_gt :: "jsnum \<Rightarrow> jsnum \<Rightarrow> bool" where
  "js_gt NaN b = False"
| "js_gt a NaN = False"
| "js_gt (Fin a) (Fin b) = (b < a)"
| "js_gt PInf PInf = False"
| "js_gt PInf b = True"
| "js_gt a NInf = (a \<noteq> NInf)"
| "js_gt a b = False"

text \<open>\<open>Math.min(a, b)\<close> and \<open>Math.max(a, b)\<close>: NaN as soon as one argument is NaN.\<close>

fun js_min :: "jsnum \<Rightarrow> jsnum \<Rightarrow> jsnum" where
  "js_min NaN b = NaN"
| "js_min a NaN = NaN"
| "js_min a b = (if js_gt a b then b else a)"

fun js_max :: "jsnum \<Rightarrow> jsnum \<Rightarrow> jsnum" where
  "js_max NaN b = NaN"
| "js_max a NaN = NaN"
| "js_max a b = (if js_gt b a then b else a)"


text \<open>The result of an operation, rounded by \<open>fl\<close>; the special values stay.\<close>

definition js_round :: "(real \<Rightarrow> real) \<Rightarrow> jsnum \<Rightarrow> jsnum" where
  "js_round fl a = (case a of Fin x \<Rightarrow> Fin (fl x) | _ \<Rightarrow> a)"



section \<open>The action data model\<close>

text \<open>
  The types of the protocol (\<open>BrickCoordinates\<close>, \<open>BrickMouseEvent\<close>,
  \<open>BrickKeyboardEvent\<close>, \<open>BrickSystemCall\<close>, \<open>BrickSystemEvent\<close>,
  \<open>BrickEnvironmentContext\<close>, \<open>BrickAction\<close>, \<open>TaskRecording\<close>). A field
  \<open>f\<close> of the source type is the field \<open>p_f\<close> here, with a prefix per type,
  since record fields are global constants. An optional field is an \<open>option\<close>; the test
  \<open>'f' in obj\<close> of the source is the test that the field is not \<open>None\<close>. Payloads that
  no function of the program reads (process and service descriptions, system-call
  parameters and result, target attributes, the process chain, GUI regions) are kept as
  opaque strings, so that comparing two events still sees them.
\<close>

record coordinates =
  coord_x :: real
  coord_y :: real
  coord_screen :: "real option"
  coord_relative :: "bool option"

record target =
  tgt_element :: string
  tgt_selector :: string
  tgt_text :: "string option"
  tgt_attributes :: "string option"
  tgt_role :: "string option"

record mouse_event =
  me_type :: string
  me_coordinates :: coordinates
  me_target :: "target option"
  me_button :: "nat option"
  me_pressure :: "real option"
  me_timestamp :: real

record modifiers =
  mod_ctrl :: "bool option"
  mod_alt :: "bool option"
  mod_shift :: "bool option"
  mod_meta :: "bool option"
  mod_fn :: "bool option"

record keyboard_event =
  ke_type :: string
  ke_key :: string
  ke_keyCode :: "nat option"
  ke_modifiers :: "modifiers option"
  ke_repeat :: "bool option"
  ke_timestamp :: real

record system_call =
  sc_type :: string
  sc_module :: string
  sc_function :: string
  sc_parameters :: "string option"
  sc_result :: "string option"
  sc_error :: "string option"
  sc_timestamp :: real

record window_state =
  win_title :: string
  win_handle :: "nat option"
  win_bounds :: "(real \<times> real \<times> real \<times> real) option"
  win_isFullscreen :: "bool option"
  win_isMinimized :: "bool option"
  win_isMaximized :: "bool option"

record system_event =
  se_type :: string
  se_process :: "string option"
  se_service :: "string option"
  se_systemCall :: "system_call option"
  se_window :: "window_state option"
  se_timestamp :: real

datatype event =
  MouseEvent mouse_event
| KeyboardEvent keyboard_event
| SystemEvent system_event

fun event_type :: "event \<Rightarrow> string" where
  "event_type (MouseEvent m) = me_type m"
| "event_type (KeyboardEvent k) = ke_type k"
| "event_type (SystemEvent s) = se_type s"

fun event_timestamp :: "event \<Rightarrow> real" where
  "event_timestamp (MouseEvent m) = me_timestamp m"
| "event_timestamp (KeyboardEvent k) = ke_timestamp k"
| "event_timestamp (SystemEvent s) = se_timestamp s"

record os_info =
  os_name :: string
  os_version :: string
  os_arch :: string

record screen =
  scr_id :: nat
  scr_bounds :: "real \<times> real \<times> real \<times> real"
  scr_primary :: bool
  scr_scaleFactor :: real

record environment =
  env_os :: os_info
  env_screens :: "screen list"
  env_locale :: string
  env_timezone :: string

record system_state =
  ss_cpuUsage :: real
  ss_memoryUsage :: real
  ss_activeProcesses :: real
  ss_activeServices :: real

record action_context =
  ctx_windowTitle :: "string option"
  ctx_activeApp :: "string option"
  ctx_screenResolution :: "(real \<times> real) option"
  ctx_environment :: "environment option"
  ctx_processChain :: "string option"
  ctx_systemState :: "system_state option"
  ctx_guiElements :: "string list option"
  ctx_guiRegions :: "string option"

datatype action_type = Mouse | Keyboard | System

text \<open>
  An action is parametric in how it holds its context: by value (\<open>action_context action\<close>) for
  the components that only read a recording, by address (\<open>nat action\<close>) where the
  variation generator writes through the shared context object.
\<close>

record 'c action =
  act_id :: string
  act_type :: action_type
  act_event :: event
  act_context :: 'c

record 'c recording =
  rec_id :: string
  rec_name :: string
  rec_description :: string
  rec_actions :: "'c action list"
  rec_environment :: environment
  rec_tags :: "string list"
  rec_created_at :: string


section \<open>Pattern Extractor (\<open>AbsoluteZeroGenerator\<close>)\<close>

record success_metrics =
  sm_completionRate :: jsnum
  sm_executionTime :: jsnum
  sm_errorRate :: jsnum
  sm_userSatisfaction :: jsnum

text \<open>
  \<open>TaskPattern\<close>. Of \<open>contextFeatures\<close> the environment tags are kept; the GUI element
  tags and the summed system state are read by no function of the program.
\<close>

record pattern =
  pat_id :: string
  pat_actionSequence :: "string list"
  pat_successMetrics :: success_metrics
  pat_environment :: "string list"
  pat_emergentBehaviors :: "string list"

fun isErrorAction :: "'c action \<Rightarrow> bool" where
  "isErrorAction a =
     (case (act_type a, act_event a) of
        (System, SystemEvent s) \<Rightarrow>
          (case se_systemCall s of
             Some c \<Rightarrow> sc_error c \<noteq> None
           | None \<Rightarrow> False)
      | _ \<Rightarrow> False)"

text \<open>
  \<open>Math.max(...ts) - Math.min(...ts)\<close> over the timestamps; the empty list is answered
  before the two folds are reached.
\<close>

fun getTotalExecutionTime :: "'c action list \<Rightarrow> real" where
  "getTotalExecutionTime [] = 0"
| "getTotalExecutionTime (a # as) =
     (let t = event_timestamp (act_event a);
          ts = map (\<lambda>b. event_timestamp (act_event b)) as
      in fold max ts t - fold min ts t)"

definition calculateOptimalTime :: "'c action list \<Rightarrow> real" where
  "calculateOptimalTime as = real (length as) * 50"

text \<open>
  A timestamp as the recorder writes it (\<open>Date.now() - startTime\<close>): a whole number
  of milliseconds, below \<open>2^53\<close>. On such timestamps the subtraction
  \<open>max - min\<close> and the product \<open>length * 50\<close> are exact in doubles, and the rounded
  quotient \<open>optimalTime / totalTime\<close> is above the double \<open>0.7\<close> exactly when the
  exact quotient is above \<open>7 / 10\<close> (two quotients of whole numbers below \<open>2^53\<close> on
  either side of \<open>7 / 10\<close> are further apart than the rounding error).
\<close>

definition whole_milliseconds :: "real \<Rightarrow> bool" where
  "whole_milliseconds t \<longleftrightarrow> t \<in> \<int> \<and> 0 \<le> t \<and> t < 2 ^ 53"

text \<open>
  \<open>areActionsSimilar\<close> compares the types and the serialised events; the serialisation
  of an event is taken to be injective on the fields, so it is equality of events.
\<close>

definition areActionsSimilar :: "'c action \<Rightarrow> 'c action \<Rightarrow> bool" where
  "areActionsSimilar a1 a2 \<longleftrightarrow> act_type a1 = act_type a2 \<and> act_event a1 = act_event a2"

fun countRedundantActions :: "'c action list \<Rightarrow> nat" where
  "countRedundantActions (a # b # as) =
     (if areActionsSimilar a b then 1 else 0) + countRedundantActions (b # as)"
| "countRedundantActions as = 0"

definition calculateExecutionEfficiency :: "'c action list \<Rightarrow> jsnum" where
  "calculateExecutionEfficiency as =
     (if length as = 0 then Fin 0
      else let totalTime = getTotalExecutionTime as;
               optimalTime = calculateOptimalTime as
           in js_min (Fin 1) (js_div (Fin optimalTime) (Fin totalTime)))"

definition calculateCleanlinessScore :: "'c action list \<Rightarrow> jsnum" where
  "calculateCleanlinessScore as =
     (let redundantActions = countRedundantActions as;
          totalActions = length as
      in js_max (Fin 0)
           (js_sub (Fin 1) (js_div (Fin (real redundantActions)) (Fin (real totalActions)))))"

definition hasCompletedSuccessfully :: "'c recording \<Rightarrow> bool" where
  "hasCompletedSuccessfully task \<longleftrightarrow>
     length (rec_actions task) > 0 \<and> \<not> list_ex isErrorAction (rec_actions task)"

definition hasPositiveFeedback :: "'c recording \<Rightarrow> bool" where
  "hasPositiveFeedback task =
     (let hasOptimalTiming = js_gt (calculateExecutionEfficiency (rec_actions task)) (Fin (7 / 10));
          hasCleanExecution = js_gt (calculateCleanlinessScore (rec_actions task)) (Fin (8 / 10))
      in hasCompletedSuccessfully task \<and> hasOptimalTiming \<and> hasCleanExecution)"


definition inferUserSatisfaction :: "'c action list \<Rightarrow> jsnum" where
  "inferUserSatisfaction as =
     (let efficiency = calculateExecutionEfficiency as;
          cleanliness = calculateCleanlinessScore as
      in js_div (js_add efficiency cleanliness) (Fin 2))"

fun extractActionSequence :: "'c action list \<Rightarrow> string list" where
  "extractActionSequence as =
     map (\<lambda>a. case act_type a of
                 Mouse \<Rightarrow> ''mouse:'' @ event_type (act_event a)
               | Keyboard \<Rightarrow> ''keyboard:'' @ event_type (act_event a)
               | System \<Rightarrow> ''system:'' @ event_type (act_event a)) as"

definition identifyEmergentBehaviors :: "'c action list \<Rightarrow> string list" where
  "identifyEmergentBehaviors as =
     [] @ [''adaptive-timing'', ''context-awareness''] @ [''efficient-navigation'', ''minimal-clicks'']"

text \<open>The identifier comes from \<open>crypto.randomUUID()\<close>; here it is an argument.\<close>

definition extractSuccessPattern :: "string \<Rightarrow> 'c recording \<Rightarrow> pattern" where
  "extractSuccessPattern uuid task =
     \<lparr> pat_id = uuid,
       pat_actionSequence = extractActionSequence (rec_actions task),
       pat_successMetrics =
         \<lparr> sm_completionRate = Fin 1,
           sm_executionTime = Fin (getTotalExecutionTime (rec_actions task)),
           sm_errorRate = Fin 0,
           sm_userSatisfaction = inferUserSatisfaction (rec_actions task) \<rparr>,
       pat_environment =
         [os_name (env_os (rec_environment task)),
          env_locale (rec_environment task),
          env_timezone (rec_environment task)],
       pat_emergentBehaviors = identifyEmergentBehaviors (rec_actions task) \<rparr>"

text \<open>
  The cold-start scan. The pattern store is a \<open>Map\<close> keyed by the fresh identifier,
  read back in insertion order: the list of its values. \<open>uuid n\<close> is the \<open>n\<close>-th
  identifier that the generator hands out; identifiers are taken to be distinct, so
  that no entry of the store is overwritten.
\<close>

fun scanTasks :: "(nat \<Rightarrow> string) \<Rightarrow> nat \<Rightarrow> 'c recording list \<Rightarrow> pattern list" where
  "scanTasks uuid n [] = []"
| "scanTasks uuid n (task # tasks) =
     (if hasPositiveFeedback task
      then extractSuccessPattern (uuid n) task # scanTasks uuid (Suc n) tasks
      else scanTasks uuid n tasks)"

text \<open>
  \<open>Inl\<close> is the error that the query of the persistence collaborator throws; the
  \<open>catch\<close> logs it and leaves the store empty.
\<close>

definition initializeFromSuccessfulTasks ::
    "(nat \<Rightarrow> string) \<Rightarrow> string + 'c recording list \<Rightarrow> pattern list" where
  "initializeFromSuccessfulTasks uuid allTasks =
     (case allTasks of Inl err \<Rightarrow> [] | Inr tasks \<Rightarrow> scanTasks uuid 0 tasks)"


subsection \<open>Sample recordings\<close>

definition sample_context :: action_context where
  "sample_context =
     \<lparr> ctx_windowTitle = Some ''Editor'', ctx_activeApp = Some ''editor'',
       ctx_screenResolution = Some (1920, 1080), ctx_environment = None,
       ctx_processChain = None, ctx_systemState = None,
       ctx_guiElements = None, ctx_guiRegions = None \<rparr>"

definition sample_environment :: environment where
  "sample_environment =
     \<lparr> env_os = \<lparr> os_name = ''Windows'', os_version = ''11'', os_arch = ''x64'' \<rparr>,
       env_screens = [\<lparr> scr_id = 0, scr_bounds = (0, 0, 1920, 1080),
                        scr_primary = True, scr_scaleFactor = 1 \<rparr>],
       env_locale = ''en-US'', env_timezone = ''UTC'' \<rparr>"

text \<open>A mouse move recorded at time \<open>t\<close>.\<close>

definition move_at :: "real \<Rightarrow> action_context action" where
  "move_at t =
     \<lparr> act_id = ''m'', act_type = Mouse,
       act_event = MouseEvent
         \<lparr> me_type = ''move'',
           me_coordinates = \<lparr> coord_x = 10, coord_y = 20, coord_screen = None,
                              coord_relative = None \<rparr>,
           me_target = None, me_button = None, me_pressure = None, me_timestamp = t \<rparr>,
       act_context = sample_context \<rparr>"

definition recording_of :: "'c action list \<Rightarrow> 'c recording" where
  "recording_of as =
     \<lparr> rec_id = ''r'', rec_name = ''sample'', rec_description = ''sample recording'',
       rec_actions = as, rec_environment = sample_environment, rec_tags = [],
       rec_created_at = ''2024-01-01T00:00:00.000Z'' \<rparr>"

text \<open>Seven distinct actions over 500 ms: the efficiency ratio is \<open>350 / 500\<close>.\<close>

definition seven_in_500 :: "action_context recording" where
  "seven_in_500 = recording_of (map move_at [0, 10, 20, 30, 40, 50, 500])"

text \<open>Two distinct actions over 100 ms: the efficiency ratio is \<open>100 / 100\<close>.\<close>

definition two_in_100 :: "action_context recording" where
  "two_in_100 = recording_of (map move_at [0, 100])"

text \<open>A system action whose system call failed.\<close>

definition failed_call :: system_call where
  "failed_call =
     \<lparr> sc_type = ''processStart'', sc_module = ''kernel'', sc_function = ''spawn'',
       sc_parameters = None, sc_result = None, sc_error = Some ''access denied'',
       sc_timestamp = 50 \<rparr>"

definition failed_event :: system_event where
  "failed_event =
     \<lparr> se_type = ''systemCall'', se_process = None, se_service = None,
       se_systemCall = Some failed_call, se_window = None, se_timestamp = 50 \<rparr>"

definition failed_action :: "action_context action" where
  "failed_action =
     \<lparr> act_id = ''s'', act_type = System, act_event = SystemEvent failed_event,
       act_context = sample_context \<rparr>"


section \<open>Task Synthesizer: selection of patterns\<close>







text \<open>
  The score, every product, quotient, difference and sum rounded as the code computes
  it; \<open>fl (4 / 10)\<close> is the literal \<open>0.4\<close>.
\<close>

definition calculatePatternScore :: "(real \<Rightarrow> real) \<Rightarrow> pattern \<Rightarrow> jsnum" where
  "calculatePatternScore fl p =
     (let m = pat_successMetrics p;
          successWeight = js_round fl (js_mul (sm_completionRate m) (Fin (fl (4 / 10))));
          efficiencyWeight =
            js_round fl (js_mul (js_round fl (js_div (Fin 1) (sm_executionTime m)))
              (Fin (fl (3 / 10))));
          reliabilityWeight =
            js_round fl (js_mul (js_round fl (js_sub (Fin 1) (sm_errorRate m)))
              (Fin (fl (2 / 10))));
          satisfactionWeight = js_round fl (js_mul (sm_userSatisfaction m) (Fin (fl (1 / 10))))
      in js_round fl
           (js_add
              (js_round fl (js_add (js_round fl (js_add successWeight efficiencyWeight))
                 reliabilityWeight))
              satisfactionWeight))"










section \<open>Replay Engine (\<open>BrickPlayer\<close>)\<close>

text \<open>
  What the browser does is a parameter of the model. \<open>querySelector\<close> throws on a
  selector that does not parse and otherwise tells whether an element matches;
  \<open>callHandler\<close> is the body of a registered system-call handler and \<open>setFullscreen\<close>
  the full-screen request or exit of the window branch, each of which may throw.
\<close>

datatype replay_error = TypeError string | SyntaxError string | HostError string

record host =
  querySelector :: "string \<Rightarrow> replay_error + bool"
  callHandler :: "system_call \<Rightarrow> replay_error option"
  setFullscreen :: "bool \<Rightarrow> replay_error option"

text \<open>
  What a run does, in order: \<open>Dispatched a\<close> when \<open>executeAction\<close> is entered for
  \<open>a\<close>, \<open>Waited d\<close> for a suspension of \<open>d\<close> ms, and the console lines.
\<close>

datatype effect =
  Dispatched "action_context action"
| Waited real
| ConsoleError string replay_error
| ConsoleWarn string string

text \<open>The effects of a call and the error it throws, if any.\<close>

type_synonym outcome = "effect list \<times> replay_error option"

text \<open>
  \<open>executeMouseAction\<close> looks the target up with \<open>document.querySelector\<close> and sends
  the mouse event to the element found, if any; only the lookup can throw.
\<close>

definition executeMouseAction :: "host \<Rightarrow> action_context action \<Rightarrow> outcome" where
  "executeMouseAction h action =
     (case act_event action of
        MouseEvent m \<Rightarrow>
          (case me_target m of
             Some t \<Rightarrow>
               (case querySelector h (tgt_selector t) of
                  Inl err \<Rightarrow> ([], Some err)
                | Inr found \<Rightarrow> ([], None))
           | None \<Rightarrow> ([], None))
      | _ \<Rightarrow> ([], None))"

definition systemCallHandlers :: "string list" where
  "systemCallHandlers = [''processStart'', ''serviceControl'', ''windowManagement'']"

definition executeSystemAction :: "host \<Rightarrow> action_context action \<Rightarrow> outcome" where
  "executeSystemAction h action =
     (case act_event action of
        SystemEvent s \<Rightarrow>
          (let call = (case se_systemCall s of
                         Some c \<Rightarrow>
                           (if sc_type c \<in> set systemCallHandlers then ([], callHandler h c)
                            else ([ConsoleWarn ''Unhandled system call type:'' (sc_type c)], None))
                       | None \<Rightarrow> ([], None))
           in case snd call of
                Some err \<Rightarrow> call
              | None \<Rightarrow>
                  (case se_window s of
                     Some w \<Rightarrow> (fst call, setFullscreen h (win_isFullscreen w = Some True))
                   | None \<Rightarrow> call))
      | _ \<Rightarrow> ([], None))"

text \<open>
  The \<open>keyboard\<close> branch calls \<open>this.executeKeyboardAction\<close>. The class defines
  \<open>executeKeyboardEvent\<close> and no member of that name, so the call throws a
  \<open>TypeError\<close>. The \<open>catch\<close> logs the error and throws it again.
\<close>

definition executeAction :: "host \<Rightarrow> action_context action \<Rightarrow> outcome" where
  "executeAction h action =
     (let r = (case act_type action of
                 Mouse \<Rightarrow> executeMouseAction h action
               | Keyboard \<Rightarrow> ([], Some (TypeError ''this.executeKeyboardAction is not a function''))
               | System \<Rightarrow> executeSystemAction h action)
      in case snd r of
           Some err \<Rightarrow> (fst r @ [ConsoleError (''Error executing action '' @ act_id action @ '':'') err], Some err)
         | None \<Rightarrow> r)"

record player =
  pl_actions :: "action_context action list"
  pl_isPlaying :: bool
  pl_currentIndex :: nat

definition delay_after :: "player \<Rightarrow> action_context action \<Rightarrow> effect list" where
  "delay_after p action =
     (if pl_currentIndex p < length (pl_actions p) then
        (let nextAction = pl_actions p ! pl_currentIndex p;
             delay = event_timestamp (act_event nextAction) - event_timestamp (act_event action)
         in if delay > 0 then [Waited delay] else [])
      else [])"

definition stop :: "player \<Rightarrow> player" where
  "stop p = p\<lparr>pl_isPlaying := False\<rparr>"

text \<open>
  The \<open>while\<close> loop of \<open>play\<close>. \<open>stops i\<close> tells whether \<open>stop()\<close> is called while
  the iteration at index \<open>i\<close> is suspended (in its dispatch or in its delay); no other
  call touches the player during the run. The result is the player, the effects and the
  error that leaves the loop, if any.
\<close>

function play_loop ::
    "host \<Rightarrow> (nat \<Rightarrow> bool) \<Rightarrow> player \<Rightarrow> effect list \<Rightarrow> player \<times> effect list \<times> replay_error option" where
  "play_loop h stops p out =
     (if pl_currentIndex p < length (pl_actions p) \<and> pl_isPlaying p then
        (let action = pl_actions p ! pl_currentIndex p;
             r = executeAction h action;
             p1 = (if stops (pl_currentIndex p) then stop p else p)
         in case snd r of
              Some err \<Rightarrow> (p1, out @ Dispatched action # fst r, Some err)
            | None \<Rightarrow>
                (let p2 = p1\<lparr>pl_currentIndex := pl_currentIndex p1 + 1\<rparr>
                 in play_loop h stops p2 (out @ Dispatched action # fst r @ delay_after p2 action)))
      else (p, out, None))"
  by pat_completeness auto
termination
  by (relation "measure (\<lambda>(h, stops, p, out). length (pl_actions p) - pl_currentIndex p)")
     (auto simp: stop_def)


declare play_loop.simps [simp del]

text \<open>
  \<open>play\<close>: the guard, the loop inside \<open>try\<close>, the \<open>catch\<close> that logs and the
  \<open>finally\<close> that resets the flag. The last component is the error with which the
  promise returned to the caller is rejected.
\<close>

definition play ::
    "host \<Rightarrow> (nat \<Rightarrow> bool) \<Rightarrow> player \<Rightarrow> player \<times> effect list \<times> replay_error option" where
  "play h stops p =
     (if pl_isPlaying p \<or> length (pl_actions p) = 0 then (p, [], None)
      else
        (let r = play_loop h stops (p\<lparr>pl_isPlaying := True, pl_currentIndex := 0\<rparr>) [];
             finally = (fst r)\<lparr>pl_isPlaying := False\<rparr>
         in case snd (snd r) of
              Some err \<Rightarrow> (finally, fst (snd r) @ [ConsoleError ''Playback error:'' err], None)
            | None \<Rightarrow> (finally, fst (snd r), None)))"

text \<open>The actions dispatched by a run, in order.\<close>

fun dispatched :: "effect list \<Rightarrow> action_context action list" where
  "dispatched [] = []"
| "dispatched (Dispatched a # es) = a # dispatched es"
| "dispatched (e # es) = dispatched es"

definition quiet_host :: host where
  "quiet_host = \<lparr> querySelector = (\<lambda>sel. Inr False), callHandler = (\<lambda>c. None),
                   setFullscreen = (\<lambda>b. None) \<rparr>"

definition key_down :: "action_context action" where
  "key_down =
     \<lparr> act_id = ''k'', act_type = Keyboard,
       act_event = KeyboardEvent
         \<lparr> ke_type = ''keyDown'', ke_key = ''a'', ke_keyCode = Some 65, ke_modifiers = None,
           ke_repeat = None, ke_timestamp = 0 \<rparr>,
       act_context = sample_context \<rparr>"

definition idle_player :: "action_context action list \<Rightarrow> player" where
  "idle_player as = \<lparr> pl_actions = as, pl_isPlaying = False, pl_currentIndex = 0 \<rparr>"


section \<open>Instruction Translator (\<open>MCPTranslator\<close>)\<close>

datatype instruction_type = IClick | IType | INavigate | ISystem | IWait

record instruction =
  ins_type :: instruction_type
  ins_target :: "string option"
  ins_value :: "string option"
  ins_selector :: "string option"
  ins_systemCall :: "system_call option"
  ins_description :: string
  ins_context :: "string option"

definition focusInstruction :: "string \<Rightarrow> instruction" where
  "focusInstruction currentContext =
     \<lparr> ins_type = ISystem, ins_target = None, ins_value = None, ins_selector = None,
       ins_systemCall = None, ins_description = ''Focus window: '' @ currentContext,
       ins_context = Some currentContext \<rparr>"

text \<open>\<open>target.text || target.element\<close>: the text unless it is absent or empty.\<close>

definition textOrElement :: "target \<Rightarrow> string" where
  "textOrElement t =
     (case tgt_text t of
        Some txt \<Rightarrow> if txt \<noteq> [] then txt else tgt_element t
      | None \<Rightarrow> tgt_element t)"

definition clickInstruction :: "string \<Rightarrow> target \<Rightarrow> instruction" where
  "clickInstruction currentContext t =
     \<lparr> ins_type = IClick, ins_target = Some (textOrElement t), ins_value = None,
       ins_selector = Some (tgt_selector t), ins_systemCall = None,
       ins_description = ''Click '' @ textOrElement t,
       ins_context = Some currentContext \<rparr>"

definition typeInstruction :: "string \<Rightarrow> string \<Rightarrow> instruction" where
  "typeInstruction currentContext txt =
     \<lparr> ins_type = IType, ins_target = None, ins_value = Some txt, ins_selector = None,
       ins_systemCall = None, ins_description = ''Type \"'' @ txt @ ''\"'',
       ins_context = Some currentContext \<rparr>"

definition systemInstruction :: "string \<Rightarrow> system_call \<Rightarrow> instruction" where
  "systemInstruction currentContext c =
     \<lparr> ins_type = ISystem, ins_target = None, ins_value = None, ins_selector = None,
       ins_systemCall = Some c,
       ins_description = ''Execute system call: '' @ sc_type c @ '' - '' @ sc_function c,
       ins_context = Some currentContext \<rparr>"

text \<open>
  The head of the loop body of \<open>translateToInstructions\<close>: the window title of the
  action is set, not empty, and differs from the current context.
\<close>

definition windowChanged :: "string \<Rightarrow> action_context action \<Rightarrow> bool" where
  "windowChanged currentContext action =
     (case ctx_windowTitle (act_context action) of
        Some title \<Rightarrow> title \<noteq> [] \<and> title \<noteq> currentContext
      | None \<Rightarrow> False)"

definition nextContext :: "string \<Rightarrow> action_context action \<Rightarrow> string" where
  "nextContext currentContext action =
     (if windowChanged currentContext action
      then the (ctx_windowTitle (act_context action)) else currentContext)"

text \<open>The \<open>switch\<close> of the loop body: the instructions pushed for one action.\<close>

definition instructionFor :: "string \<Rightarrow> action_context action \<Rightarrow> instruction list" where
  "instructionFor currentContext action =
     (case act_type action of
        Mouse \<Rightarrow>
          (case act_event action of
             MouseEvent m \<Rightarrow>
               (case me_target m of
                  Some t \<Rightarrow> [clickInstruction currentContext t]
                | None \<Rightarrow> [])
           | _ \<Rightarrow> [])
      | Keyboard \<Rightarrow>
          (case act_event action of
             KeyboardEvent k \<Rightarrow>
               (if ke_type k = ''textInput'' then [typeInstruction currentContext (ke_key k)]
                else [])
           | _ \<Rightarrow> [])
      | System \<Rightarrow>
          (case act_event action of
             SystemEvent s \<Rightarrow>
               (case se_systemCall s of
                  Some c \<Rightarrow> [systemInstruction currentContext c]
                | None \<Rightarrow> [])
           | _ \<Rightarrow> []))"

text \<open>The loop of \<open>translateToInstructions\<close>: the list handed to the coalescing pass.\<close>

fun collectInstructions :: "string \<Rightarrow> action_context action list \<Rightarrow> instruction list" where
  "collectInstructions currentContext [] = []"
| "collectInstructions currentContext (action # actions) =
     (if windowChanged currentContext action then [focusInstruction (nextContext currentContext action)]
      else []) @
     instructionFor (nextContext currentContext action) action @
     collectInstructions (nextContext currentContext action) actions"

text \<open>
  The coalescing pass. Its loop carries the pending text and its own current context,
  both empty at the start; what is left of the text is flushed at the end.
\<close>

fun optimize_loop :: "string \<Rightarrow> string \<Rightarrow> instruction list \<Rightarrow> instruction list" where
  "optimize_loop currentTextInput currentContext [] =
     (if currentTextInput \<noteq> [] then [typeInstruction currentContext currentTextInput] else [])"
| "optimize_loop currentTextInput currentContext (instruction # instructions) =
     (if ins_type instruction = IType \<and> ins_context instruction = Some currentContext
      then optimize_loop
             (currentTextInput @ (case ins_value instruction of Some v \<Rightarrow> v | None \<Rightarrow> []))
             currentContext instructions
      else (if currentTextInput \<noteq> [] then [typeInstruction currentContext currentTextInput] else []) @
           instruction #
           optimize_loop []
             (case ins_context instruction of
                Some c \<Rightarrow> if c \<noteq> [] then c else currentContext
              | None \<Rightarrow> currentContext)
             instructions)"

definition optimizeInstructions :: "instruction list \<Rightarrow> instruction list" where
  "optimizeInstructions instructions = optimize_loop [] [] instructions"

definition translateToInstructions :: "action_context action list \<Rightarrow> instruction list" where
  "translateToInstructions actions = optimizeInstructions (collectInstructions [] actions)"

definition save_target :: target where
  "save_target =
     \<lparr> tgt_element = ''button'', tgt_selector = ''#save'', tgt_text = Some ''Save'',
       tgt_attributes = None, tgt_role = None \<rparr>"

definition save_click_event :: mouse_event where
  "save_click_event =
     \<lparr> me_type = ''click'',
       me_coordinates = \<lparr> coord_x = 10, coord_y = 20, coord_screen = None,
                          coord_relative = Some True \<rparr>,
       me_target = Some save_target, me_button = Some 0, me_pressure = None,
       me_timestamp = 0 \<rparr>"

definition click_save :: "action_context action" where
  "click_save =
     \<lparr> act_id = ''c'', act_type = Mouse, act_event = MouseEvent save_click_event,
       act_context = sample_context \<rparr>"

definition text_input_event :: keyboard_event where
  "text_input_event =
     \<lparr> ke_type = ''textInput'', ke_key = ''a'', ke_keyCode = None, ke_modifiers = None,
       ke_repeat = None, ke_timestamp = 10 \<rparr>"

definition text_input :: "action_context action" where
  "text_input =
     \<lparr> act_id = ''t'', act_type = Keyboard, act_event = KeyboardEvent text_input_event,
       act_context = sample_context \<rparr>"


section \<open>Variation Generator (\<open>TaskGenerator\<close>)\<close>

text \<open>
  \<open>varyActions\<close> copies each action with \<open>{ ...action }\<close>, which copies the reference
  to the context object, and then assigns through that reference. The context objects
  therefore live in a store: an action holds the address of its context, and the store
  maps an address to the context found there.
\<close>

type_synonym addr = nat
type_synonym heap = "addr \<Rightarrow> action_context"

text \<open>
  \<open>rnd k\<close> is the \<open>k\<close>-th number that \<open>Math.random()\<close> returns; the counter of the
  numbers drawn so far is threaded with the store.
\<close>

definition randomVariation :: "(nat \<Rightarrow> real) \<Rightarrow> nat \<Rightarrow> real \<Rightarrow> real" where
  "randomVariation rnd n mx = (rnd n - 1 / 2) * mx"

text \<open>\<open>{ ...event, timestamp: t }\<close>.\<close>

fun set_timestamp :: "real \<Rightarrow> event \<Rightarrow> event" where
  "set_timestamp t (MouseEvent m) = MouseEvent (m\<lparr>me_timestamp := t\<rparr>)"
| "set_timestamp t (KeyboardEvent k) = KeyboardEvent (k\<lparr>ke_timestamp := t\<rparr>)"
| "set_timestamp t (SystemEvent s) = SystemEvent (s\<lparr>se_timestamp := t\<rparr>)"

text \<open>
  The body of the \<open>map\<close> in \<open>varyActions\<close>. The mouse branch builds new coordinates from
  \<open>x\<close>, \<open>y\<close> and \<open>relative\<close> only. The system branch writes the new system state
  into the context object of the action, which is the one the base action holds.
\<close>

definition varyAction ::
    "(nat \<Rightarrow> real) \<Rightarrow> addr action \<Rightarrow> heap \<times> nat \<Rightarrow> addr action \<times> heap \<times> nat" where
  "varyAction rnd action st =
     (let h = fst st; n = snd st in
      case act_type action of
        Mouse \<Rightarrow>
          (case act_event action of
             MouseEvent m \<Rightarrow>
               (action\<lparr>act_event := MouseEvent (m\<lparr>me_coordinates :=
                   \<lparr> coord_x = coord_x (me_coordinates m) + randomVariation rnd n 20,
                     coord_y = coord_y (me_coordinates m) + randomVariation rnd (n + 1) 20,
                     coord_screen = None,
                     coord_relative = coord_relative (me_coordinates m) \<rparr>\<rparr>)\<rparr>,
                h, n + 2)
           | _ \<Rightarrow> (action, h, n))
      | Keyboard \<Rightarrow>
          (action\<lparr>act_event := set_timestamp
              (event_timestamp (act_event action) + randomVariation rnd n 100) (act_event action)\<rparr>,
           h, n + 1)
      | System \<Rightarrow>
          (case ctx_systemState (h (act_context action)) of
             Some ss \<Rightarrow>
               (action,
                h(act_context action := (h (act_context action))\<lparr>ctx_systemState := Some
                   (ss\<lparr>ss_cpuUsage := ss_cpuUsage ss + randomVariation rnd n 10,
                       ss_memoryUsage := ss_memoryUsage ss + randomVariation rnd (n + 1) 100000\<rparr>)\<rparr>),
                n + 2)
           | None \<Rightarrow> (action, h, n)))"

fun varyActions ::
    "(nat \<Rightarrow> real) \<Rightarrow> addr action list \<Rightarrow> heap \<times> nat \<Rightarrow> addr action list \<times> heap \<times> nat" where
  "varyActions rnd [] st = ([], st)"
| "varyActions rnd (action # actions) st =
     (let r = varyAction rnd action st;
          rs = varyActions rnd actions (snd r)
      in (fst r # fst rs, snd rs))"

fun varyScreens :: "(nat \<Rightarrow> real) \<Rightarrow> screen list \<Rightarrow> nat \<Rightarrow> screen list" where
  "varyScreens rnd [] n = []"
| "varyScreens rnd (s # ss) n =
     s\<lparr>scr_scaleFactor := scr_scaleFactor s + randomVariation rnd n (1 / 10)\<rparr> #
     varyScreens rnd ss (n + 1)"

definition varyEnvironment :: "(nat \<Rightarrow> real) \<Rightarrow> environment \<Rightarrow> nat \<Rightarrow> environment \<times> nat" where
  "varyEnvironment rnd env n =
     (env\<lparr>env_screens := varyScreens rnd (env_screens env) n\<rparr>, n + length (env_screens env))"

definition createVariation ::
    "(nat \<Rightarrow> real) \<Rightarrow> string \<Rightarrow> string \<Rightarrow> addr recording \<Rightarrow> heap \<times> nat \<Rightarrow>
     addr recording \<times> heap \<times> nat" where
  "createVariation rnd uuid now task st =
     (let va = varyActions rnd (rec_actions task) st;
          ve = varyEnvironment rnd (rec_environment task) (snd (snd va))
      in (\<lparr> rec_id = uuid,
             rec_name = rec_name task @ '' (Variation)'',
             rec_description = ''Synthetic variation of: '' @ rec_description task,
             rec_actions = fst va,
             rec_environment = fst ve,
             rec_tags = rec_tags task @ [''synthetic''],
             rec_created_at = now \<rparr>,
          fst (snd va), snd ve))"

text \<open>An action and a recording as seen through the store.\<close>

definition deref_action :: "heap \<Rightarrow> addr action \<Rightarrow> action_context action" where
  "deref_action h a =
     \<lparr> act_id = act_id a, act_type = act_type a, act_event = act_event a,
       act_context = h (act_context a) \<rparr>"

definition deref_recording :: "heap \<Rightarrow> addr recording \<Rightarrow> action_context recording" where
  "deref_recording h r =
     \<lparr> rec_id = rec_id r, rec_name = rec_name r, rec_description = rec_description r,
       rec_actions = map (deref_action h) (rec_actions r),
       rec_environment = rec_environment r, rec_tags = rec_tags r,
       rec_created_at = rec_created_at r \<rparr>"

text \<open>
  Blanking the numeric fields that the generator perturbs: the resource metrics
  \<open>cpuUsage\<close> and \<open>memoryUsage\<close> of a context, the coordinates of the mouse event of a
  mouse action, the timestamp of the event of a keyboard action, the scale factor of
  every screen. Two values that agree after blanking differ in those fields at most.
\<close>

definition blank_context :: "action_context \<Rightarrow> action_context" where
  "blank_context c =
     c\<lparr>ctx_systemState :=
          map_option (\<lambda>ss. ss\<lparr>ss_cpuUsage := 0, ss_memoryUsage := 0\<rparr>) (ctx_systemState c)\<rparr>"

definition blank_event :: "action_type \<Rightarrow> event \<Rightarrow> event" where
  "blank_event ty e =
     (case ty of
        Mouse \<Rightarrow>
          (case e of
             MouseEvent m \<Rightarrow>
               MouseEvent (m\<lparr>me_coordinates := (me_coordinates m)
                  \<lparr>coord_x := 0, coord_y := 0, coord_screen := None\<rparr>\<rparr>)
           | _ \<Rightarrow> e)
      | Keyboard \<Rightarrow> set_timestamp 0 e
      | System \<Rightarrow> e)"

definition blank_action :: "action_context action \<Rightarrow> action_context action" where
  "blank_action a =
     a\<lparr>act_event := blank_event (act_type a) (act_event a),
       act_context := blank_context (act_context a)\<rparr>"

definition blank_environment :: "environment \<Rightarrow> environment" where
  "blank_environment env =
     env\<lparr>env_screens := map (\<lambda>s. s\<lparr>scr_scaleFactor := 0\<rparr>) (env_screens env)\<rparr>"

text \<open>A recording of one system action whose context, at address 0, has resource metrics.\<close>

definition busy_state :: system_state where
  "busy_state = \<lparr> ss_cpuUsage = 10, ss_memoryUsage = 1000, ss_activeProcesses = 5,
                   ss_activeServices = 3 \<rparr>"

definition busy_context :: action_context where
  "busy_context = sample_context\<lparr>ctx_systemState := Some busy_state\<rparr>"

definition window_focus :: "addr action" where
  "window_focus =
     \<lparr> act_id = ''w'', act_type = System,
       act_event = SystemEvent
         \<lparr> se_type = ''windowFocus'', se_process = None, se_service = None,
           se_systemCall = None, se_window = None, se_timestamp = 0 \<rparr>,
       act_context = 0 \<rparr>"

definition base_recording :: "addr recording" where
  "base_recording = recording_of [window_focus]"


section \<open>Properties of the Pattern Extractor\<close>

text \<open>
  C9. A recording with no action is not a successful pattern. The cleanliness score of
  the empty list is \<open>0 / 0\<close>, which is NaN and no error; the verdict is false whatever
  the rest of the recording is.
\<close>

theorem empty_recording_never_qualifies:
  "calculateCleanlinessScore ([] :: 'c action list) = NaN \<and>
   hasPositiveFeedback (task\<lparr>rec_actions := []\<rparr>) = False"
  by (simp add: calculateCleanlinessScore_def hasPositiveFeedback_def
      hasCompletedSuccessfully_def js_sub_def signed_inf_def)

subsection \<open>Timestamps\<close>

lemma fold_max_const: "\<forall>x \<in> set ts. x = t \<Longrightarrow> fold max ts (t::real) = t"
  by (induction ts) auto

lemma fold_min_const: "\<forall>x \<in> set ts. x = t \<Longrightarrow> fold min ts (t::real) = t"
  by (induction ts) auto

lemma fold_max_ge: "(t::real) \<le> fold max ts t"
proof (induction ts arbitrary: t)
  case Nil
  show ?case by simp
next
  case (Cons x ts)
  have "t \<le> max x t" by simp
  also have "\<dots> \<le> fold max ts (max x t)" by (rule Cons.IH)
  finally show ?case by simp
qed

lemma fold_min_le: "fold min ts (t::real) \<le> t"
proof (induction ts arbitrary: t)
  case Nil
  show ?case by simp
next
  case (Cons x ts)
  have "fold min ts (min x t) \<le> min x t" by (rule Cons.IH)
  also have "\<dots> \<le> t" by simp
  finally show ?case by simp
qed

lemma getTotalExecutionTime_nonneg: "0 \<le> getTotalExecutionTime as"
proof (cases as)
  case Nil
  then show ?thesis by simp
next
  case (Cons a bs)
  let ?t = "event_timestamp (act_event a)"
  let ?ts = "map (\<lambda>b. event_timestamp (act_event b)) bs"
  have "fold min ?ts ?t \<le> ?t" by (rule fold_min_le)
  also have "?t \<le> fold max ?ts ?t" by (rule fold_max_ge)
  finally show ?thesis using Cons by (simp add: Let_def)
qed

lemma getTotalExecutionTime_same:
  assumes "\<forall>a \<in> set as. event_timestamp (act_event a) = t"
  shows "getTotalExecutionTime as = 0"
proof (cases as)
  case Nil
  then show ?thesis by simp
next
  case (Cons a bs)
  let ?ts = "map (\<lambda>b. event_timestamp (act_event b)) bs"
  have ta: "event_timestamp (act_event a) = t" using assms Cons by simp
  have all: "\<forall>x \<in> set ?ts. x = t" using assms Cons by auto
  show ?thesis using Cons ta fold_max_const [OF all] fold_min_const [OF all]
    by (simp add: Let_def)
qed

lemma efficiency_zero_time:
  assumes "as \<noteq> []" and "getTotalExecutionTime as = 0"
  shows "calculateExecutionEfficiency as = Fin 1"
proof -
  have "0 < real (length as) * 50" using assms(1) by simp
  then show ?thesis using assms
    by (simp add: calculateExecutionEfficiency_def calculateOptimalTime_def signed_inf_def)
qed

lemma efficiency_positive_time:
  assumes "as \<noteq> []" and "0 < getTotalExecutionTime as"
  shows "js_gt (calculateExecutionEfficiency as) (Fin (7 / 10)) \<longleftrightarrow>
         7 / 10 < calculateOptimalTime as / getTotalExecutionTime as"
proof -
  let ?T = "getTotalExecutionTime as" and ?O = "calculateOptimalTime as"
  have eff: "calculateExecutionEfficiency as = (if ?O < ?T then Fin (?O / ?T) else Fin 1)"
    using assms by (simp add: calculateExecutionEfficiency_def Let_def)
  show ?thesis
  proof (cases "?O < ?T")
    case True
    then show ?thesis using eff by simp
  next
    case False
    then have "1 \<le> ?O / ?T" using assms(2) by simp
    then have "7 / 10 < ?O / ?T" by linarith
    then show ?thesis using eff False by simp
  qed
qed

text \<open>
  C10. When all the actions of a non-empty recording carry the same timestamp, the total
  time is 0, the division \<open>optimalTime / 0\<close> is \<open>+Infinity\<close>, \<open>Math.min\<close> caps it to 1,
  and the recording passes the efficiency test.
\<close>

theorem same_timestamp_efficiency_is_one:
  assumes "as \<noteq> []" and "\<forall>a \<in> set as. event_timestamp (act_event a) = t"
  shows "getTotalExecutionTime as = 0 \<and>
         js_div (Fin (calculateOptimalTime as)) (Fin (getTotalExecutionTime as)) = PInf \<and>
         calculateExecutionEfficiency as = Fin 1 \<and>
         js_gt (calculateExecutionEfficiency as) (Fin (7 / 10))"
proof -
  have z: "getTotalExecutionTime as = 0" by (rule getTotalExecutionTime_same [OF assms(2)])
  have pos: "0 < calculateOptimalTime as" using assms(1) by (simp add: calculateOptimalTime_def)
  have inf: "js_div (Fin (calculateOptimalTime as)) (Fin (getTotalExecutionTime as)) = PInf"
    using z pos by (simp add: signed_inf_def)
  have one: "calculateExecutionEfficiency as = Fin 1" by (rule efficiency_zero_time [OF assms(1) z])
  show ?thesis using z inf one by simp
qed

theorem same_timestamp_efficiency_witness:
  "[move_at 5, move_at 5] \<noteq> [] \<and>
   event_timestamp (act_event (move_at 5)) = 5 \<and>
   calculateExecutionEfficiency [move_at 5, move_at 5] = Fin 1 \<and>
   js_gt (calculateExecutionEfficiency [move_at 5, move_at 5]) (Fin (7 / 10))"
  using same_timestamp_efficiency_is_one [of "[move_at 5, move_at 5]" 5]
  by (simp add: move_at_def)


subsection \<open>Qualification\<close>

lemma move_at_not_error: "isErrorAction (move_at t) = False"
  by (simp add: move_at_def)

lemma move_at_similar: "areActionsSimilar (move_at s) (move_at t) \<longleftrightarrow> s = t"
  by (simp add: areActionsSimilar_def move_at_def)

lemma move_at_timestamp: "event_timestamp (act_event (move_at t)) = t"
  by (simp add: move_at_def)

lemma error_action_blocks_completion:
  assumes "a \<in> set (rec_actions task)" and "isErrorAction a"
  shows "\<not> hasCompletedSuccessfully task"
  using assms by (auto simp: hasCompletedSuccessfully_def list_ex_iff)

lemma scanTasks_skip:
  assumes "\<not> hasPositiveFeedback task"
  shows "scanTasks uuid n (before @ task # after) = scanTasks uuid n (before @ after)"
  using assms by (induction before arbitrary: n) auto

text \<open>
  C8. A recording that contains a system action whose system call carries an error is
  rejected by the success check, whatever its efficiency and cleanliness are, and the
  cold-start scan builds the same pattern store as if the recording were not stored.
\<close>

theorem error_recording_never_qualifies:
  assumes "a \<in> set (rec_actions task)"
    and "act_type a = System"
    and "act_event a = SystemEvent s"
    and "se_systemCall s = Some c"
    and "sc_error c = Some e"
  shows "hasPositiveFeedback task = False \<and>
         initializeFromSuccessfulTasks uuid (Inr (before @ task # after)) =
         initializeFromSuccessfulTasks uuid (Inr (before @ after))"
proof -
  have "isErrorAction a" using assms(2-5) by simp
  then have "\<not> hasCompletedSuccessfully task"
    using assms(1) by (rule error_action_blocks_completion [rotated])
  then have no: "\<not> hasPositiveFeedback task" by (simp add: hasPositiveFeedback_def Let_def)
  show ?thesis using no scanTasks_skip [OF no]
    by (simp add: initializeFromSuccessfulTasks_def)
qed

theorem error_recording_witness:
  "failed_action \<in> set (rec_actions (recording_of [move_at 0, failed_action, move_at 100])) \<and>
   act_type failed_action = System \<and>
   act_event failed_action = SystemEvent failed_event \<and>
   se_systemCall failed_event = Some failed_call \<and>
   sc_error failed_call = Some ''access denied'' \<and>
   js_gt (calculateExecutionEfficiency [move_at 0, failed_action, move_at 100]) (Fin (7 / 10)) \<and>
   js_gt (calculateCleanlinessScore [move_at 0, failed_action, move_at 100]) (Fin (8 / 10)) \<and>
   hasPositiveFeedback (recording_of [move_at 0, failed_action, move_at 100]) = False \<and>
   initializeFromSuccessfulTasks (\<lambda>n. ''id'')
     (Inr ([two_in_100] @ recording_of [move_at 0, failed_action, move_at 100] # [])) =
   initializeFromSuccessfulTasks (\<lambda>n. ''id'') (Inr ([two_in_100] @ []))"
proof -
  have eff: "js_gt (calculateExecutionEfficiency [move_at 0, failed_action, move_at 100]) (Fin (7 / 10))"
    by (simp add: calculateExecutionEfficiency_def calculateOptimalTime_def move_at_def
        failed_action_def failed_event_def)
  have clean: "js_gt (calculateCleanlinessScore [move_at 0, failed_action, move_at 100]) (Fin (8 / 10))"
    by (simp add: calculateCleanlinessScore_def areActionsSimilar_def js_sub_def move_at_def
        failed_action_def)
  have mem: "failed_action \<in> set (rec_actions (recording_of [move_at 0, failed_action, move_at 100]))"
    by (simp add: recording_of_def)
  have ty: "act_type failed_action = System" by (simp add: failed_action_def)
  have ev: "act_event failed_action = SystemEvent failed_event" by (simp add: failed_action_def)
  have sc: "se_systemCall failed_event = Some failed_call" by (simp add: failed_event_def)
  have er: "sc_error failed_call = Some ''access denied''" by (simp add: failed_call_def)
  show ?thesis
    using error_recording_never_qualifies [OF mem ty ev sc er, of "\<lambda>n. ''id''" "[two_in_100]" "[]"]
      eff clean mem ty ev sc er
    by simp
qed

lemma getTotalExecutionTime_Max_Min:
  assumes "as \<noteq> []"
  shows "getTotalExecutionTime as =
         Max ((\<lambda>a. event_timestamp (act_event a)) ` set as) -
         Min ((\<lambda>a. event_timestamp (act_event a)) ` set as)"
proof (cases as)
  case Nil
  then show ?thesis using assms by simp
next
  case (Cons a bs)
  let ?t = "event_timestamp (act_event a)"
  let ?ts = "map (\<lambda>b. event_timestamp (act_event b)) bs"
  have img: "(\<lambda>a. event_timestamp (act_event a)) ` set as = set (?t # ?ts)"
    using Cons by simp
  have "fold max ?ts ?t = Max (set (?t # ?ts))" by (rule Max.set_eq_fold [symmetric])
  moreover have "fold min ?ts ?t = Min (set (?t # ?ts))" by (rule Min.set_eq_fold [symmetric])
  ultimately show ?thesis unfolding img using Cons by (simp add: Let_def)
qed

text \<open>
  C1, as the code has it. Both score tests are strict. For a non-empty recording with
  no error action, a cleanliness score above 0.8 and timestamps in whole milliseconds,
  the total time is the greatest timestamp minus the least, and the recording qualifies
  exactly when the capped ratio \<open>min(1, optimalTime / totalTime)\<close> is above 0.7; that
  is, when the total time is 0 (the ratio is \<open>+Infinity\<close>) or
  \<open>optimalTime / totalTime > 0.7\<close>, with \<open>optimalTime = actionCount * 50\<close>.
\<close>

theorem qualification_iff_efficiency_above:
  assumes "hasCompletedSuccessfully task"
    and "js_gt (calculateCleanlinessScore (rec_actions task)) (Fin (8 / 10))"
    and "\<forall>a \<in> set (rec_actions task). whole_milliseconds (event_timestamp (act_event a))"
  shows "getTotalExecutionTime (rec_actions task) =
           Max ((\<lambda>a. event_timestamp (act_event a)) ` set (rec_actions task)) -
           Min ((\<lambda>a. event_timestamp (act_event a)) ` set (rec_actions task)) \<and>
         (hasPositiveFeedback task \<longleftrightarrow>
            getTotalExecutionTime (rec_actions task) = 0 \<or>
            7 / 10 < real (length (rec_actions task)) * 50 /
                     getTotalExecutionTime (rec_actions task))"
proof -
  let ?as = "rec_actions task"
  have ne: "?as \<noteq> []" using assms(1) by (auto simp: hasCompletedSuccessfully_def)
  have verdict: "hasPositiveFeedback task \<longleftrightarrow>
      js_gt (calculateExecutionEfficiency ?as) (Fin (7 / 10))"
    using assms(1,2) by (simp add: hasPositiveFeedback_def Let_def)
  have iff: "hasPositiveFeedback task \<longleftrightarrow>
      getTotalExecutionTime ?as = 0 \<or>
      7 / 10 < real (length ?as) * 50 / getTotalExecutionTime ?as"
  proof (cases "getTotalExecutionTime ?as = 0")
    case True
    then show ?thesis using verdict efficiency_zero_time [OF ne True] by simp
  next
    case False
    then have pos: "0 < getTotalExecutionTime ?as"
      using getTotalExecutionTime_nonneg [of ?as] by linarith
    show ?thesis using verdict efficiency_positive_time [OF ne pos] False
      by (simp add: calculateOptimalTime_def)
  qed
  show ?thesis using getTotalExecutionTime_Max_Min [OF ne] iff by (rule conjI)
qed

theorem qualification_iff_efficiency_witness:
  "hasCompletedSuccessfully two_in_100 \<and>
   js_gt (calculateCleanlinessScore (rec_actions two_in_100)) (Fin (8 / 10)) \<and>
   whole_milliseconds 0 \<and> whole_milliseconds 100 \<and>
   getTotalExecutionTime (rec_actions two_in_100) = 100 \<and>
   hasPositiveFeedback two_in_100"
proof -
  have c: "hasCompletedSuccessfully two_in_100"
    by (simp add: hasCompletedSuccessfully_def two_in_100_def recording_of_def move_at_def)
  have k: "js_gt (calculateCleanlinessScore (rec_actions two_in_100)) (Fin (8 / 10))"
    by (simp add: calculateCleanlinessScore_def areActionsSimilar_def js_sub_def
        two_in_100_def recording_of_def move_at_def)
  have w: "whole_milliseconds 0 \<and> whole_milliseconds 100"
    by (simp add: whole_milliseconds_def)
  have ms: "\<forall>a \<in> set (rec_actions two_in_100). whole_milliseconds (event_timestamp (act_event a))"
    using w by (simp add: two_in_100_def recording_of_def move_at_def)
  have t: "getTotalExecutionTime (rec_actions two_in_100) = 100"
    by (simp add: two_in_100_def recording_of_def move_at_def)
  have n: "length (rec_actions two_in_100) = 2"
    by (simp add: two_in_100_def recording_of_def)
  show ?thesis using qualification_iff_efficiency_above [OF c k ms] c k w t n by simp
qed

text \<open>
  The claim as the specification words it (\<open>\<ge> 0.7\<close>) fails at the boundary: seven
  distinct actions spread over 500 ms have no error action, cleanliness 1 and ratio
  exactly \<open>350 / 500 = 0.7\<close>, and the recording is rejected.
\<close>

theorem qualification_at_boundary_counterexample:
  "hasCompletedSuccessfully seven_in_500 \<and>
   calculateCleanlinessScore (rec_actions seven_in_500) = Fin 1 \<and>
   calculateOptimalTime (rec_actions seven_in_500) / getTotalExecutionTime (rec_actions seven_in_500)
     = 7 / 10 \<and>
   \<not> hasPositiveFeedback seven_in_500"
proof -
  have c: "hasCompletedSuccessfully seven_in_500"
    by (simp add: hasCompletedSuccessfully_def seven_in_500_def recording_of_def
        move_at_not_error del: isErrorAction.simps)
  have k: "calculateCleanlinessScore (rec_actions seven_in_500) = Fin 1"
    by (simp add: calculateCleanlinessScore_def move_at_similar js_sub_def
        seven_in_500_def recording_of_def)
  have t: "getTotalExecutionTime (rec_actions seven_in_500) = 500"
    by (simp add: seven_in_500_def recording_of_def move_at_timestamp)
  have o: "calculateOptimalTime (rec_actions seven_in_500) = 350"
    by (simp add: calculateOptimalTime_def seven_in_500_def recording_of_def)
  have n: "length (rec_actions seven_in_500) = 7"
    by (simp add: seven_in_500_def recording_of_def)
  have e: "calculateExecutionEfficiency (rec_actions seven_in_500) = Fin (7 / 10)"
    by (simp add: calculateExecutionEfficiency_def t o n)
  have "\<not> hasPositiveFeedback seven_in_500"
    using e by (simp add: hasPositiveFeedback_def)
  then show ?thesis using c k t o by simp
qed


section \<open>Properties of the selection\<close>

subsection \<open>The sort\<close>








subsection \<open>The order of the scores\<close>





subsection \<open>The sample store\<close>









subsection \<open>The scores of stored patterns\<close>

lemma efficiency_finite:
  assumes "as \<noteq> []"
  shows "\<exists>e. calculateExecutionEfficiency as = Fin e"
proof (cases "getTotalExecutionTime as = 0")
  case True
  then show ?thesis using efficiency_zero_time [OF assms True] by simp
next
  case False
  then show ?thesis using assms by (simp add: calculateExecutionEfficiency_def Let_def)
qed

lemma cleanliness_finite:
  assumes "as \<noteq> []"
  shows "\<exists>k. calculateCleanlinessScore as = Fin k"
  using assms by (simp add: calculateCleanlinessScore_def Let_def js_sub_def)

lemma extracted_score_not_NaN:
  assumes sign: "\<forall>x. (0 < fl x) = (0 < x)" and ne: "rec_actions task \<noteq> []"
  shows "calculatePatternScore fl (extractSuccessPattern u task) \<noteq> NaN"
proof -
  obtain e k where e: "calculateExecutionEfficiency (rec_actions task) = Fin e"
    and k: "calculateCleanlinessScore (rec_actions task) = Fin k"
    using efficiency_finite [OF ne] cleanliness_finite [OF ne] by blast
  have pos: "0 < fl (3 / 10)" using sign by simp
  have t: "0 \<le> getTotalExecutionTime (rec_actions task)" by (rule getTotalExecutionTime_nonneg)
  show ?thesis
  proof (cases "getTotalExecutionTime (rec_actions task) = 0")
    case True
    then show ?thesis using e k pos
      by (simp add: calculatePatternScore_def extractSuccessPattern_def inferUserSatisfaction_def
          js_round_def js_sub_def signed_inf_def Let_def)
  next
    case False
    then show ?thesis using e k
      by (simp add: calculatePatternScore_def extractSuccessPattern_def inferUserSatisfaction_def
          js_round_def js_sub_def Let_def)
  qed
qed

lemma scanTasks_scores_not_NaN:
  assumes "\<forall>x. (0 < fl x) = (0 < x)"
  shows "\<forall>p \<in> set (scanTasks uuid n tasks). calculatePatternScore fl p \<noteq> NaN"
proof (induction tasks arbitrary: n)
  case Nil
  show ?case by simp
next
  case (Cons task tasks)
  show ?case
  proof (cases "hasPositiveFeedback task")
    case True
    then have "rec_actions task \<noteq> []"
      by (auto simp: hasPositiveFeedback_def hasCompletedSuccessfully_def Let_def)
    then show ?thesis using True Cons [of "Suc n"] extracted_score_not_NaN [OF assms] by simp
  next
    case False
    then show ?thesis using Cons [of n] by simp
  qed
qed

lemma store_scores_not_NaN:
  assumes "\<forall>x. (0 < fl x) = (0 < x)"
  shows "\<forall>p \<in> set (initializeFromSuccessfulTasks uuid allTasks). calculatePatternScore fl p \<noteq> NaN"
  using scanTasks_scores_not_NaN [OF assms]
  by (cases allTasks) (simp_all add: initializeFromSuccessfulTasks_def)

subsection \<open>The selection\<close>





section \<open>Properties of the Replay Engine\<close>

lemma dispatched_append: "dispatched (xs @ ys) = dispatched xs @ dispatched ys"
  by (induction xs rule: dispatched.induct) auto

lemma dispatched_mouse: "dispatched (fst (executeMouseAction h a)) = []"
  by (simp add: executeMouseAction_def split: event.splits option.splits sum.splits)

lemma dispatched_system: "dispatched (fst (executeSystemAction h a)) = []"
  by (simp add: executeSystemAction_def Let_def split: event.splits option.splits)

lemma dispatched_executeAction: "dispatched (fst (executeAction h a)) = []"
  by (simp add: executeAction_def Let_def dispatched_append dispatched_mouse dispatched_system
      split: action_type.splits option.splits)

lemma dispatched_delay: "dispatched (delay_after p a) = []"
  by (simp add: delay_after_def Let_def)

lemma executeAction_logs_error:
  "snd (executeAction h a) = Some e \<Longrightarrow>
   ConsoleError (''Error executing action '' @ act_id a @ '':'') e \<in> set (fst (executeAction h a))"
  by (auto simp: executeAction_def Let_def split: option.splits)


lemma play_loop_fails:
  assumes "pl_isPlaying p"
    and "pl_currentIndex p \<le> i" and "i < length (pl_actions p)"
    and "snd (executeAction h (pl_actions p ! i)) = Some e"
    and "\<forall>j. pl_currentIndex p \<le> j \<and> j < i \<longrightarrow>
           snd (executeAction h (pl_actions p ! j)) = None \<and> \<not> stops j"
  shows "snd (snd (play_loop h stops p out)) = Some e \<and>
         pl_currentIndex (fst (play_loop h stops p out)) = i \<and>
         pl_actions (fst (play_loop h stops p out)) = pl_actions p \<and>
         dispatched (fst (snd (play_loop h stops p out))) =
           dispatched out @ take (Suc i - pl_currentIndex p) (drop (pl_currentIndex p) (pl_actions p))"
  using assms
proof (induction h stops p out rule: play_loop.induct)
  case (1 h stops p out)
  let ?k = "pl_currentIndex p"
  let ?a = "pl_actions p ! ?k"
  have lt: "?k < length (pl_actions p)" using "1.prems" by simp
  have dr: "drop ?k (pl_actions p) = ?a # drop (Suc ?k) (pl_actions p)"
    using lt by (simp add: Cons_nth_drop_Suc)
  show ?case
  proof (cases "?k = i")
    case True
    then have bad: "snd (executeAction h ?a) = Some e" using "1.prems"(4) by simp
    have "Suc i - ?k = Suc 0" using True by simp
    then show ?thesis
      using lt "1.prems"(1) bad True dr
      by (simp add: play_loop.simps [of h stops p out] Let_def stop_def dispatched_append
          dispatched_executeAction)
  next
    case False
    then have ki: "?k < i" using "1.prems"(2) by simp
    let ?p2 = "p\<lparr>pl_currentIndex := ?k + 1\<rparr>"
    let ?out2 = "out @ Dispatched ?a # fst (executeAction h ?a) @ delay_after ?p2 ?a"
    have ok: "snd (executeAction h ?a) = None" and ns: "\<not> stops ?k"
      using "1.prems"(5) ki by auto
    have unfold: "play_loop h stops p out = play_loop h stops ?p2 ?out2"
      using lt "1.prems"(1) ok ns by (simp add: play_loop.simps [of h stops p out] Let_def)
    have IH: "snd (snd (play_loop h stops ?p2 ?out2)) = Some e \<and>
         pl_currentIndex (fst (play_loop h stops ?p2 ?out2)) = i \<and>
         pl_actions (fst (play_loop h stops ?p2 ?out2)) = pl_actions ?p2 \<and>
         dispatched (fst (snd (play_loop h stops ?p2 ?out2))) =
           dispatched ?out2 @ take (Suc i - pl_currentIndex ?p2) (drop (pl_currentIndex ?p2) (pl_actions ?p2))"
      using "1.IH" [of ?a "executeAction h ?a" p ?p2] lt ki "1.prems" ok ns
      by (simp add: Let_def)
    have "Suc i - ?k = Suc (i - ?k)" using ki by simp
    then show ?thesis
      using IH unfold dr by (simp add: dispatched_append dispatched_executeAction dispatched_delay)
  qed
qed


lemma key_down_fails:
  "snd (executeAction h key_down) = Some (TypeError ''this.executeKeyboardAction is not a function'')"
  by (simp add: executeAction_def key_down_def)

lemma move_at_succeeds: "executeAction h (move_at t) = ([], None)"
  by (simp add: executeAction_def executeMouseAction_def move_at_def)

text \<open>
  C3, as the code has it. When the dispatch of the action at index \<open>i\<close> fails (the
  earlier ones succeed and \<open>stop()\<close> is not called before), the actions up to \<open>i\<close>
  are the only ones dispatched, the error is written to the console by \<open>play\<close>, the
  player is idle again with its cursor at \<open>i\<close>, and the promise of \<open>play\<close> is
  fulfilled: the caller sees no error.
\<close>

theorem replay_failure_is_logged_not_surfaced:
  assumes "\<not> pl_isPlaying p"
    and "i < length (pl_actions p)"
    and "snd (executeAction h (pl_actions p ! i)) = Some e"
    and "\<forall>j < i. snd (executeAction h (pl_actions p ! j)) = None \<and> \<not> stops j"
  shows "snd (snd (play h stops p)) = None \<and>
         ConsoleError ''Playback error:'' e \<in> set (fst (snd (play h stops p))) \<and>
         dispatched (fst (snd (play h stops p))) = take (Suc i) (pl_actions p) \<and>
         pl_currentIndex (fst (play h stops p)) = i \<and>
         \<not> pl_isPlaying (fst (play h stops p))"
proof -
  let ?p0 = "p\<lparr>pl_isPlaying := True, pl_currentIndex := 0\<rparr>"
  have ne: "length (pl_actions p) \<noteq> 0" using assms(2) by auto
  have loop: "snd (snd (play_loop h stops ?p0 [])) = Some e \<and>
         pl_currentIndex (fst (play_loop h stops ?p0 [])) = i \<and>
         pl_actions (fst (play_loop h stops ?p0 [])) = pl_actions ?p0 \<and>
         dispatched (fst (snd (play_loop h stops ?p0 []))) =
           dispatched [] @ take (Suc i - pl_currentIndex ?p0) (drop (pl_currentIndex ?p0) (pl_actions ?p0))"
    by (rule play_loop_fails) (use assms in simp_all)
  show ?thesis using assms(1) ne loop
    by (simp add: play_def Let_def dispatched_append)
qed

theorem replay_failure_witness:
  "\<not> pl_isPlaying (idle_player [move_at 0, key_down, move_at 100]) \<and>
   snd (executeAction quiet_host (pl_actions (idle_player [move_at 0, key_down, move_at 100]) ! 1))
     = Some (TypeError ''this.executeKeyboardAction is not a function'') \<and>
   snd (snd (play quiet_host (\<lambda>n. False) (idle_player [move_at 0, key_down, move_at 100]))) = None \<and>
   dispatched (fst (snd (play quiet_host (\<lambda>n. False) (idle_player [move_at 0, key_down, move_at 100]))))
     = [move_at 0, key_down]"
  using replay_failure_is_logged_not_surfaced
    [of "idle_player [move_at 0, key_down, move_at 100]" 1 quiet_host
        "TypeError ''this.executeKeyboardAction is not a function''" "\<lambda>n. False"]
  by (simp add: idle_player_def key_down_fails move_at_succeeds)

text \<open>
  The claim that the error reaches the caller fails on a recording that starts with a
  key press: its dispatch throws and \<open>play\<close> does not reject.
\<close>

theorem replay_failure_swallowed_counterexample:
  "snd (executeAction quiet_host (pl_actions (idle_player [key_down, move_at 100]) ! 0))
     = Some (TypeError ''this.executeKeyboardAction is not a function'') \<and>
   snd (snd (play quiet_host (\<lambda>n. False) (idle_player [key_down, move_at 100]))) = None"
  by (simp add: idle_player_def key_down_fails play_def Let_def split: option.splits)



section \<open>Properties of the Instruction Translator\<close>

lemma instructionFor_length: "length (instructionFor c a) \<le> 1"
  by (simp add: instructionFor_def split: action_type.splits event.splits option.splits)

text \<open>
  C4, as the code has it. Before the coalescing pass an action contributes at most one
  instruction, after the focus instruction of a window change if there is one. A mouse
  action whose event has a target gives one click instruction, its target being the
  text of the element, or the element identifier when the text is absent or empty; a
  keyboard action of subtype \<open>textInput\<close> gives one type instruction whose value is
  the key; a system action with a system call gives one system instruction that carries
  the call. Every other action (a mouse event without target, another keyboard subtype,
  a system event without system call) gives no instruction.
\<close>

theorem action_maps_to_at_most_one_instruction:
  "length (instructionFor c a) \<le> 1 \<and>
   (act_type a = Mouse \<and> act_event a = MouseEvent m \<and> me_target m = Some t \<longrightarrow>
      instructionFor c a = [clickInstruction c t] \<and>
      ins_type (clickInstruction c t) = IClick \<and>
      ins_target (clickInstruction c t) =
        Some (case tgt_text t of Some txt \<Rightarrow> if txt \<noteq> [] then txt else tgt_element t
              | None \<Rightarrow> tgt_element t)) \<and>
   (act_type a = Keyboard \<and> act_event a = KeyboardEvent k \<and> ke_type k = ''textInput'' \<longrightarrow>
      instructionFor c a = [typeInstruction c (ke_key k)] \<and>
      ins_type (typeInstruction c (ke_key k)) = IType \<and>
      ins_value (typeInstruction c (ke_key k)) = Some (ke_key k)) \<and>
   (act_type a = System \<and> act_event a = SystemEvent s \<and> se_systemCall s = Some sc \<longrightarrow>
      instructionFor c a = [systemInstruction c sc] \<and>
      ins_type (systemInstruction c sc) = ISystem \<and>
      ins_systemCall (systemInstruction c sc) = Some sc) \<and>
   (act_type a = Mouse \<and> (\<forall>m t. act_event a = MouseEvent m \<longrightarrow> me_target m \<noteq> Some t) \<longrightarrow>
      instructionFor c a = []) \<and>
   (act_type a = Keyboard \<and> (\<forall>k. act_event a = KeyboardEvent k \<longrightarrow> ke_type k \<noteq> ''textInput'') \<longrightarrow>
      instructionFor c a = []) \<and>
   (act_type a = System \<and> (\<forall>s sc. act_event a = SystemEvent s \<longrightarrow> se_systemCall s \<noteq> Some sc) \<longrightarrow>
      instructionFor c a = []) \<and>
   collectInstructions c0 (a # rest) =
     (if windowChanged c0 a then [focusInstruction (nextContext c0 a)] else []) @
     instructionFor (nextContext c0 a) a @ collectInstructions (nextContext c0 a) rest"
  by (auto simp: instructionFor_def clickInstruction_def typeInstruction_def systemInstruction_def
      textOrElement_def split: action_type.splits event.splits option.splits)

theorem action_maps_witness:
  "instructionFor ''Editor'' click_save = [clickInstruction ''Editor'' save_target] \<and>
   ins_target (clickInstruction ''Editor'' save_target) = Some ''Save'' \<and>
   instructionFor ''Editor'' text_input = [typeInstruction ''Editor'' ''a''] \<and>
   ins_value (typeInstruction ''Editor'' ''a'') = Some ''a'' \<and>
   instructionFor ''Editor'' failed_action = [systemInstruction ''Editor'' failed_call] \<and>
   ins_systemCall (systemInstruction ''Editor'' failed_call) = Some failed_call"
proof -
  have click: "act_type click_save = Mouse \<and> act_event click_save = MouseEvent save_click_event \<and>
      me_target save_click_event = Some save_target"
    by (simp add: click_save_def save_click_event_def)
  have keyb: "act_type text_input = Keyboard \<and>
      act_event text_input = KeyboardEvent text_input_event \<and>
      ke_type text_input_event = ''textInput'' \<and> ke_key text_input_event = ''a''"
    by (simp add: text_input_def text_input_event_def)
  have sys: "act_type failed_action = System \<and>
      act_event failed_action = SystemEvent failed_event \<and>
      se_systemCall failed_event = Some failed_call"
    by (simp add: failed_action_def failed_event_def)
  show ?thesis
    using click keyb sys
      action_maps_to_at_most_one_instruction
        [where c = "''Editor''" and a = click_save and m = save_click_event and t = save_target]
      action_maps_to_at_most_one_instruction
        [where c = "''Editor''" and a = text_input and k = text_input_event]
      action_maps_to_at_most_one_instruction
        [where c = "''Editor''" and a = failed_action and s = failed_event and sc = failed_call]
    by (simp add: save_target_def)
qed

text \<open>
  The claim that every action maps to exactly one instruction fails on a key press and
  on a mouse move without target: neither gives an instruction, and the list handed to
  the coalescing pass for the two of them holds the focus instruction alone.
\<close>

theorem action_without_instruction_counterexample:
  "instructionFor ''Editor'' key_down = [] \<and>
   instructionFor ''Editor'' (move_at 0) = [] \<and>
   collectInstructions [] [key_down, move_at 0] = [focusInstruction ''Editor'']"
  by (simp add: instructionFor_def key_down_def move_at_def windowChanged_def nextContext_def
      sample_context_def)

section \<open>Properties of the Variation Generator\<close>

lemma set_timestamp_type [simp]: "event_type (set_timestamp t e) = event_type e"
  by (cases e) auto

lemma set_timestamp_twice [simp]: "set_timestamp t (set_timestamp u e) = set_timestamp t e"
  by (cases e) auto

lemma blank_context_update:
  "ctx_systemState c = Some ss \<Longrightarrow>
   blank_context (c\<lparr>ctx_systemState := Some (ss\<lparr>ss_cpuUsage := u, ss_memoryUsage := v\<rparr>)\<rparr>) =
   blank_context c"
  by (simp add: blank_context_def)

lemma varyAction_frame:
  "act_id (fst (varyAction rnd a (h, n))) = act_id a \<and>
   act_type (fst (varyAction rnd a (h, n))) = act_type a \<and>
   act_context (fst (varyAction rnd a (h, n))) = act_context a \<and>
   event_type (act_event (fst (varyAction rnd a (h, n)))) = event_type (act_event a) \<and>
   blank_event (act_type a) (act_event (fst (varyAction rnd a (h, n)))) =
     blank_event (act_type a) (act_event a)"
  by (simp add: varyAction_def Let_def blank_event_def
      split: action_type.splits event.splits option.splits)

lemma varyAction_heap:
  "blank_context (fst (snd (varyAction rnd a (h, n))) x) = blank_context (h x)"
  by (simp add: varyAction_def Let_def blank_context_update
      split: action_type.splits event.splits option.splits)

lemma varyActions_frame:
  "length (fst (varyActions rnd as (h, n))) = length as \<and>
   map act_id (fst (varyActions rnd as (h, n))) = map act_id as \<and>
   map act_type (fst (varyActions rnd as (h, n))) = map act_type as \<and>
   map act_context (fst (varyActions rnd as (h, n))) = map act_context as \<and>
   map (\<lambda>a. event_type (act_event a)) (fst (varyActions rnd as (h, n))) =
     map (\<lambda>a. event_type (act_event a)) as \<and>
   map (\<lambda>a. blank_event (act_type a) (act_event a)) (fst (varyActions rnd as (h, n))) =
     map (\<lambda>a. blank_event (act_type a) (act_event a)) as"
proof (induction as arbitrary: h n)
  case Nil
  show ?case by simp
next
  case (Cons a as)
  obtain a' h' n' where r: "varyAction rnd a (h, n) = (a', h', n')"
    by (cases "varyAction rnd a (h, n)") auto
  have f: "act_id a' = act_id a \<and> act_type a' = act_type a \<and> act_context a' = act_context a \<and>
      event_type (act_event a') = event_type (act_event a) \<and>
      blank_event (act_type a) (act_event a') = blank_event (act_type a) (act_event a)"
    using varyAction_frame [of rnd a h n] r by simp
  show ?case using Cons.IH [of h' n'] r f by (simp add: Let_def)
qed

lemma varyActions_heap:
  "blank_context (fst (snd (varyActions rnd as (h, n))) x) = blank_context (h x)"
proof (induction as arbitrary: h n)
  case Nil
  show ?case by simp
next
  case (Cons a as)
  obtain a' h' n' where r: "varyAction rnd a (h, n) = (a', h', n')"
    by (cases "varyAction rnd a (h, n)") auto
  have "blank_context (h' x) = blank_context (h x)"
    using varyAction_heap [of rnd a h n x] r by simp
  then show ?case using Cons.IH [of h' n'] r by (simp add: Let_def)
qed

lemma varyScreens_frame:
  "map (\<lambda>s. s\<lparr>scr_scaleFactor := 0\<rparr>) (varyScreens rnd ss n) =
   map (\<lambda>s. s\<lparr>scr_scaleFactor := 0\<rparr>) ss"
  by (induction ss arbitrary: n) auto

lemma blank_deref:
  assumes "act_id a' = act_id a" and "act_type a' = act_type a"
    and "act_context a' = act_context a"
    and "blank_event (act_type a) (act_event a') = blank_event (act_type a) (act_event a)"
    and "blank_context (h' (act_context a)) = blank_context (h (act_context a))"
  shows "blank_action (deref_action h' a') = blank_action (deref_action h a)"
  using assms by (simp add: blank_action_def deref_action_def)

lemma map_blank_deref:
  assumes "map act_id as' = map act_id as" and "map act_type as' = map act_type as"
    and "map act_context as' = map act_context as"
    and "map (\<lambda>a. blank_event (act_type a) (act_event a)) as' =
         map (\<lambda>a. blank_event (act_type a) (act_event a)) as"
    and "\<And>x. blank_context (h' x) = blank_context (h x)"
  shows "map (\<lambda>a. blank_action (deref_action h' a)) as' =
         map (\<lambda>a. blank_action (deref_action h a)) as"
  using assms(1-4)
proof (induction as arbitrary: as')
  case Nil
  then show ?case by simp
next
  case (Cons a as)
  then obtain b bs where as': "as' = b # bs" by (cases as') auto
  have "blank_action (deref_action h' b) = blank_action (deref_action h a)"
    using Cons.prems as' assms(5) by (intro blank_deref) auto
  then show ?case using Cons as' by simp
qed

text \<open>
  C7, as the code has it. Whatever numbers the random source returns, the actions of
  the variation are as many as those of the base recording, with the same identifiers
  in the same order and the same sequence of type and subtype, and they agree with the
  base actions (read before the call) once the perturbed numeric fields are blanked; so
  does the environment once the scale factors are blanked. The fields of the recording
  itself are not kept: the identifier and the creation time are new, the name gets the
  suffix \<open>(Variation)\<close>, the description the prefix \<open>Synthetic variation of:\<close>, and
  the tags the new tag \<open>synthetic\<close>.
\<close>

theorem variation_moves_numeric_fields_only:
  "length (rec_actions (fst (createVariation rnd uuid now task (h, n)))) = length (rec_actions task) \<and>
   map act_id (rec_actions (fst (createVariation rnd uuid now task (h, n)))) =
     map act_id (rec_actions task) \<and>
   map (\<lambda>a. (act_type a, event_type (act_event a)))
       (rec_actions (fst (createVariation rnd uuid now task (h, n)))) =
     map (\<lambda>a. (act_type a, event_type (act_event a))) (rec_actions task) \<and>
   map (\<lambda>a. blank_action (deref_action (fst (snd (createVariation rnd uuid now task (h, n)))) a))
       (rec_actions (fst (createVariation rnd uuid now task (h, n)))) =
     map (\<lambda>a. blank_action (deref_action h a)) (rec_actions task) \<and>
   blank_environment (rec_environment (fst (createVariation rnd uuid now task (h, n)))) =
     blank_environment (rec_environment task) \<and>
   rec_id (fst (createVariation rnd uuid now task (h, n))) = uuid \<and>
   rec_created_at (fst (createVariation rnd uuid now task (h, n))) = now \<and>
   rec_name (fst (createVariation rnd uuid now task (h, n))) = rec_name task @ '' (Variation)'' \<and>
   rec_description (fst (createVariation rnd uuid now task (h, n))) =
     ''Synthetic variation of: '' @ rec_description task \<and>
   rec_tags (fst (createVariation rnd uuid now task (h, n))) = rec_tags task @ [''synthetic'']"
proof -
  let ?va = "varyActions rnd (rec_actions task) (h, n)"
  have acts: "rec_actions (fst (createVariation rnd uuid now task (h, n))) = fst ?va"
    and heap: "fst (snd (createVariation rnd uuid now task (h, n))) = fst (snd ?va)"
    and env: "rec_environment (fst (createVariation rnd uuid now task (h, n))) =
      fst (varyEnvironment rnd (rec_environment task) (snd (snd ?va)))"
    by (simp_all add: createVariation_def Let_def)
  note fr = varyActions_frame [of rnd "rec_actions task" h n]
  have types: "map (\<lambda>a. (act_type a, event_type (act_event a))) (fst ?va) =
      map (\<lambda>a. (act_type a, event_type (act_event a))) (rec_actions task)"
  proof -
    have "map (\<lambda>a. (act_type a, event_type (act_event a))) xs =
        zip (map act_type xs) (map (\<lambda>a. event_type (act_event a)) xs)" for xs :: "addr action list"
      by (induction xs) auto
    then show ?thesis using fr by simp
  qed
  have blank: "map (\<lambda>a. blank_action (deref_action (fst (snd ?va)) a)) (fst ?va) =
      map (\<lambda>a. blank_action (deref_action h a)) (rec_actions task)"
    using fr by (intro map_blank_deref varyActions_heap) simp_all
  have benv: "blank_environment (fst (varyEnvironment rnd (rec_environment task) (snd (snd ?va)))) =
      blank_environment (rec_environment task)"
    by (simp add: blank_environment_def varyEnvironment_def varyScreens_frame)
  have meta: "rec_id (fst (createVariation rnd uuid now task (h, n))) = uuid \<and>
      rec_created_at (fst (createVariation rnd uuid now task (h, n))) = now \<and>
      rec_name (fst (createVariation rnd uuid now task (h, n))) =
        rec_name task @ '' (Variation)'' \<and>
      rec_description (fst (createVariation rnd uuid now task (h, n))) =
        ''Synthetic variation of: '' @ rec_description task \<and>
      rec_tags (fst (createVariation rnd uuid now task (h, n))) = rec_tags task @ [''synthetic'']"
    by (simp add: createVariation_def Let_def)
  show ?thesis using fr types blank benv meta by (simp add: acts heap env)
qed

text \<open>
  The claim that only numeric fields differ between input and output fails on the
  fields of the recording itself: the name, the description and the tags of a variation
  are not those of its base recording.
\<close>

theorem variation_renames_counterexample:
  "rec_name (fst (createVariation (\<lambda>n. 3 / 4) ''v'' ''now'' base_recording (\<lambda>x. busy_context, 0)))
     = ''sample (Variation)'' \<and>
   rec_name base_recording = ''sample'' \<and>
   rec_description
     (fst (createVariation (\<lambda>n. 3 / 4) ''v'' ''now'' base_recording (\<lambda>x. busy_context, 0)))
     \<noteq> rec_description base_recording \<and>
   rec_tags (fst (createVariation (\<lambda>n. 3 / 4) ''v'' ''now'' base_recording (\<lambda>x. busy_context, 0)))
     = [''synthetic''] \<and>
   rec_tags base_recording = []"
  by (simp add: createVariation_def Let_def base_recording_def recording_of_def)

text \<open>The mouse and keyboard branches write to no context.\<close>

lemma varyActions_keeps_heap:
  assumes "\<forall>a \<in> set as. act_type a \<noteq> System"
  shows "fst (snd (varyActions rnd as (h, n))) = h"
  using assms
proof (induction as arbitrary: n)
  case Nil
  show ?case by simp
next
  case (Cons a as)
  obtain a' h' n' where r: "varyAction rnd a (h, n) = (a', h', n')"
    by (cases "varyAction rnd a (h, n)") auto
  have "act_type a \<noteq> System" using Cons.prems by simp
  then have "h' = h" using r
    by (auto simp: varyAction_def Let_def split: action_type.splits event.splits)
  then show ?case using Cons.IH [of n'] Cons.prems r by (simp add: Let_def)
qed

text \<open>
  C5 fails on the system branch. With a base recording of one system action whose
  context has the metrics \<open>cpuUsage = 10\<close> and \<open>memoryUsage = 1000\<close>, and a random
  source that returns 0.75, the context of the base action holds 12.5 and 26000 after
  the call: the base recording read after the call is not the one read before.
\<close>

theorem variation_mutates_base_context:
  "ctx_systemState ((\<lambda>x. busy_context) (act_context window_focus)) = Some busy_state \<and>
   ctx_systemState
     (fst (snd (createVariation (\<lambda>n. 3 / 4) ''v'' ''now'' base_recording (\<lambda>x. busy_context, 0)))
        (act_context window_focus)) =
     Some (busy_state\<lparr>ss_cpuUsage := 25 / 2, ss_memoryUsage := 26000\<rparr>) \<and>
   deref_recording
     (fst (snd (createVariation (\<lambda>n. 3 / 4) ''v'' ''now'' base_recording (\<lambda>x. busy_context, 0))))
     base_recording \<noteq>
   deref_recording (\<lambda>x. busy_context) base_recording"
  by (simp add: createVariation_def varyAction_def randomVariation_def base_recording_def
      recording_of_def window_focus_def busy_context_def busy_state_def sample_context_def
      deref_recording_def deref_action_def Let_def)

end
